theory Spec2Isabelle
  imports Main
begin

section \<open>The database connection manager of \<^verbatim>\<open>test-codebase/database.py\<close>\<close>

text \<open>
  \<^verbatim>\<open>DatabaseManager\<close> wraps the \<^verbatim>\<open>sqlite3\<close> module: it opens a connection on
  demand, runs one statement on a fresh cursor and returns every row, and closes the
  connection. The class is embedded with explicit state passing: every method takes the
  manager and the state of the \<^verbatim>\<open>sqlite3\<close> library and returns the value (or the
  exception raised, as \<open>Inl\<close>) with both states updated.
\<close>

subsection \<open>The \<^verbatim>\<open>sqlite3\<close> library, as far as the class uses it\<close>

text \<open>
  The exceptions the library raises. \<open>ConnectionError\<close> is what \<^verbatim>\<open>sqlite3.connect\<close>
  raises when the file cannot be opened, \<open>QueryError\<close> is what \<^verbatim>\<open>cursor.execute\<close>
  raises (with the engine's message), and \<open>ProgrammingError\<close> is what a closed
  connection raises when it is asked for a cursor.
\<close>

datatype error = ConnectionError | QueryError string | ProgrammingError

text \<open>
  \<^verbatim>\<open>connection.row_factory\<close>: \<^verbatim>\<open>None\<close> (rows are plain tuples) or \<^verbatim>\<open>sqlite3.Row\<close>
  (rows carry their column names).
\<close>

datatype row_factory = TupleFactory | RowFactory

datatype 'v row = Tuple "'v list" | Row "string list" "'v list"

text \<open>
  A connection object: its identity (connections are numbered in the order in which
  they are opened), the file it was opened on, and its row factory.
\<close>

record Connection =
  conn_id :: nat
  conn_path :: string
  row_factory :: row_factory

text \<open>
  A parameter mapping is a Python dict with string keys; \<^verbatim>\<open>params = None\<close> is
  \<open>None\<close>. A dict is falsy exactly when it is empty.
\<close>

type_synonym 'v params = "(string \<times> 'v) list option"

fun truthy :: "'v params \<Rightarrow> bool" where
  "truthy None = False"
| "truthy (Some kvs) = (kvs \<noteq> [])"

text \<open>
  What the library does with the files and with SQL text is a parameter: \<open>can_open\<close>
  says whether \<^verbatim>\<open>sqlite3.connect(path)\<close> succeeds on the current files, and \<open>run\<close> gives,
  for the files, the path of the connection, the statement and the parameters bound
  (\<open>None\<close>: the one-argument \<^verbatim>\<open>cursor.execute(query)\<close>), either the engine's error
  message or the column names with the rows of values, and the files afterwards.
\<close>

record ('db, 'v) sqlite3 =
  can_open :: "'db \<Rightarrow> string \<Rightarrow> bool"
  run :: "'db \<Rightarrow> string \<Rightarrow> string \<Rightarrow> 'v params
          \<Rightarrow> (string + string list \<times> 'v list list) \<times> 'db"

text \<open>
  The state of the library as one manager sees it (the manager owns its connection
  and nothing else opens or closes connections): the files, how many connections have
  been opened so far (the identity of the next one), the identities of the connections
  that are open, and how many statements have been executed, failed ones included.
\<close>

record 'db world =
  db :: 'db
  opened :: nat
  live :: "nat set"
  executed :: nat

text \<open>\<^verbatim>\<open>sqlite3.connect(path)\<close>: a new open connection, or an exception and no connection.\<close>

definition sqlite3_connect ::
  "('db, 'v) sqlite3 \<Rightarrow> string \<Rightarrow> 'db world \<Rightarrow> (error + Connection) \<times> 'db world" where
  "sqlite3_connect L p w =
     (if can_open L (db w) p
      then (Inr \<lparr>conn_id = opened w, conn_path = p, row_factory = TupleFactory\<rparr>,
            w\<lparr>opened := Suc (opened w), live := insert (opened w) (live w)\<rparr>)
      else (Inl ConnectionError, w))"

text \<open>
  \<^verbatim>\<open>connection.close()\<close>: the handle is released; closing a closed connection does
  nothing. The library raises nothing here when one thread uses the connection.
\<close>

definition connection_close :: "Connection \<Rightarrow> 'db world \<Rightarrow> (error + unit) \<times> 'db world" where
  "connection_close c w = (Inr (), w\<lparr>live := live w - {conn_id c}\<rparr>)"

text \<open>
  A cursor remembers its connection and the row factory the connection had when the
  cursor was made, and holds the result of the statement it executed.
\<close>

record 'v Cursor =
  cur_conn :: Connection
  cur_factory :: row_factory
  cur_columns :: "string list"
  cur_values :: "'v list list"

definition cursor :: "Connection \<Rightarrow> 'db world \<Rightarrow> error + 'v Cursor" where
  "cursor c w =
     (if conn_id c \<in> live w
      then Inr \<lparr>cur_conn = c, cur_factory = row_factory c, cur_columns = [], cur_values = []\<rparr>
      else Inl ProgrammingError)"

definition cursor_execute ::
  "('db, 'v) sqlite3 \<Rightarrow> 'v Cursor \<Rightarrow> string \<Rightarrow> 'v params \<Rightarrow> 'db world
   \<Rightarrow> (error + 'v Cursor) \<times> 'db world" where
  "cursor_execute L cur query params w =
     (case run L (db w) (conn_path (cur_conn cur)) query params of
        (Inl msg, d) \<Rightarrow> (Inl (QueryError msg), w\<lparr>db := d, executed := Suc (executed w)\<rparr>)
      | (Inr (cols, vals), d) \<Rightarrow>
          (Inr (cur\<lparr>cur_columns := cols, cur_values := vals\<rparr>),
           w\<lparr>db := d, executed := Suc (executed w)\<rparr>))"

definition make_row :: "row_factory \<Rightarrow> string list \<Rightarrow> 'v list \<Rightarrow> 'v row" where
  "make_row f cols vs = (case f of TupleFactory \<Rightarrow> Tuple vs | RowFactory \<Rightarrow> Row cols vs)"

definition fetchall :: "'v Cursor \<Rightarrow> 'v row list" where
  "fetchall cur = map (make_row (cur_factory cur) (cur_columns cur)) (cur_values cur)"

subsection \<open>The class\<close>

record DatabaseManager =
  db_path :: string
  connection :: "Connection option"

text \<open>\<^verbatim>\<open>__init__\<close>\<close>

definition init :: "string \<Rightarrow> DatabaseManager" where
  "init p = \<lparr>db_path = p, connection = None\<rparr>"

text \<open>
  \<^verbatim>\<open>connect\<close>. A connection object is always truthy, so \<^verbatim>\<open>not self.connection\<close> holds
  exactly when the field is \<^verbatim>\<open>None\<close>. The field is assigned only once
  \<^verbatim>\<open>sqlite3.connect\<close> has returned; then the row factory of the new connection is set.
\<close>

definition connect ::
  "('db, 'v) sqlite3 \<Rightarrow> DatabaseManager \<Rightarrow> 'db world
   \<Rightarrow> (error + Connection) \<times> DatabaseManager \<times> 'db world" where
  "connect L m w =
     (case connection m of
        None \<Rightarrow>
          (case sqlite3_connect L (db_path m) w of
             (Inl e, w1) \<Rightarrow> (Inl e, m, w1)
           | (Inr c, w1) \<Rightarrow>
               (let m1 = m\<lparr>connection := Some c\<rparr>;
                    c2 = c\<lparr>row_factory := RowFactory\<rparr>;
                    m2 = m1\<lparr>connection := Some c2\<rparr>
                in (Inr c2, m2, w1)))
      | Some c \<Rightarrow> (Inr c, m, w))"

text \<open>
  \<^verbatim>\<open>execute_query\<close>. An exception of any step ends the call with the states as they
  are at that step.
\<close>

definition execute_query ::
  "('db, 'v) sqlite3 \<Rightarrow> DatabaseManager \<Rightarrow> string \<Rightarrow> 'v params \<Rightarrow> 'db world
   \<Rightarrow> (error + 'v row list) \<times> DatabaseManager \<times> 'db world" where
  "execute_query L m query params w =
     (case connect L m w of
        (Inl e, m1, w1) \<Rightarrow> (Inl e, m1, w1)
      | (Inr conn, m1, w1) \<Rightarrow>
          (case cursor conn w1 of
             Inl e \<Rightarrow> (Inl e, m1, w1)
           | Inr cur \<Rightarrow>
               (case (if truthy params
                      then cursor_execute L cur query params w1
                      else cursor_execute L cur query None w1) of
                  (Inl e, w2) \<Rightarrow> (Inl e, m1, w2)
                | (Inr cur2, w2) \<Rightarrow> (Inr (fetchall cur2), m1, w2))))"

text \<open>\<^verbatim>\<open>close\<close>\<close>

definition close ::
  "DatabaseManager \<Rightarrow> 'db world \<Rightarrow> (error + unit) \<times> DatabaseManager \<times> 'db world" where
  "close m w =
     (case connection m of
        Some c \<Rightarrow>
          (case connection_close c w of
             (Inl e, w1) \<Rightarrow> (Inl e, m, w1)
           | (Inr u, w1) \<Rightarrow> (Inr (), m\<lparr>connection := None\<rparr>, w1))
      | None \<Rightarrow> (Inr (), m, w))"

subsection \<open>Sequences of calls\<close>

text \<open>
  A caller makes any sequence of calls on one manager; a call that raises leaves the
  manager and the library as they were when the exception left the method, and the
  caller goes on from there.
\<close>

datatype 'v call = Connect | ExecuteQuery string "'v params" | Close

fun step ::
  "('db, 'v) sqlite3 \<Rightarrow> DatabaseManager \<times> 'db world \<Rightarrow> 'v call \<Rightarrow> DatabaseManager \<times> 'db world" where
  "step L (m, w) Connect = snd (connect L m w)"
| "step L (m, w) (ExecuteQuery q ps) = snd (execute_query L m q ps w)"
| "step L (m, w) Close = snd (close m w)"

fun calls ::
  "('db, 'v) sqlite3 \<Rightarrow> DatabaseManager \<times> 'db world \<Rightarrow> 'v call list \<Rightarrow> DatabaseManager \<times> 'db world" where
  "calls L s [] = s"
| "calls L s (c # cs) = calls L (step L s c) cs"

text \<open>
  The manager holds at most one connection of the library: with no connection held,
  none is open; with a connection held, it is the only open one, it is the one opened
  last, it is opened on the manager's path, and its rows are \<^verbatim>\<open>sqlite3.Row\<close>s.
\<close>

definition single_connection :: "DatabaseManager \<Rightarrow> 'db world \<Rightarrow> bool" where
  "single_connection m w =
     (case connection m of
        None \<Rightarrow> live w = {}
      | Some c \<Rightarrow> live w = {conn_id c} \<and> Suc (conn_id c) = opened w
                 \<and> conn_path c = db_path m \<and> row_factory c = RowFactory)"

subsection \<open>A small engine to evaluate the class on\<close>

text \<open>
  One table \<open>t(id, name)\<close>, held as a list of rows; every path opens but those under
  \<^verbatim>\<open>/missing/\<close>, a directory that does not exist; three statements are understood and every other text is a syntax error.
\<close>

datatype sql_value = Null | Integer int | Text string

definition demo_run ::
  "sql_value list list \<Rightarrow> string \<Rightarrow> string \<Rightarrow> sql_value params
   \<Rightarrow> (string + string list \<times> sql_value list list) \<times> sql_value list list" where
  "demo_run t p q ps =
     (if q = ''SELECT 1'' then (Inr ([''1''], [[Integer 1]]), t)
      else if q = ''SELECT * FROM t'' then (Inr ([''id'', ''name''], t), t)
      else if q = ''SELECT * FROM t WHERE id = :id'' then
        (case ps of
           Some [(k, v)] \<Rightarrow>
             (if k = ''id''
              then (Inr ([''id'', ''name''],
                         filter (\<lambda>r. case r of [] \<Rightarrow> False | x # _ \<Rightarrow> x = v) t), t)
              else (Inl ''binding'', t))
         | _ \<Rightarrow> (Inl ''binding'', t))
      else (Inl ''syntax error'', t))"

definition demo :: "(sql_value list list, sql_value) sqlite3" where
  "demo = \<lparr>can_open = (\<lambda>t p. take 9 p \<noteq> ''/missing/''), run = demo_run\<rparr>"

definition demo_world :: "sql_value list list world" where
  "demo_world =
     \<lparr>db = [[Integer 1, Text ''a''], [Integer 2, Text ''b'']],
      opened = 0, live = {}, executed = 0\<rparr>"

section \<open>Properties\<close>

subsection \<open>What each method does, case by case\<close>

lemma connect_held: "connection m = Some c \<Longrightarrow> connect L m w = (Inr c, m, w)"
  by (simp add: connect_def)

lemma connect_opens:
  "connection m = None \<Longrightarrow> can_open L (db w) (db_path m) \<Longrightarrow>
   connect L m w =
     (Inr \<lparr>conn_id = opened w, conn_path = db_path m, row_factory = RowFactory\<rparr>,
      m\<lparr>connection :=
          Some \<lparr>conn_id = opened w, conn_path = db_path m, row_factory = RowFactory\<rparr>\<rparr>,
      w\<lparr>opened := Suc (opened w), live := insert (opened w) (live w)\<rparr>)"
  by (simp add: connect_def sqlite3_connect_def Let_def)

lemma connect_refused:
  "connection m = None \<Longrightarrow> \<not> can_open L (db w) (db_path m) \<Longrightarrow>
   connect L m w = (Inl ConnectionError, m, w)"
  by (simp add: connect_def sqlite3_connect_def)

lemma close_held:
  "connection m = Some c \<Longrightarrow>
   close m w = (Inr (), m\<lparr>connection := None\<rparr>, w\<lparr>live := live w - {conn_id c}\<rparr>)"
  by (simp add: close_def connection_close_def)

lemma close_none: "connection m = None \<Longrightarrow> close m w = (Inr (), m, w)"
  by (simp add: close_def)

lemma execute_query_no_connection:
  "connect L m w = (Inl e, m1, w1) \<Longrightarrow> execute_query L m q ps w = (Inl e, m1, w1)"
  by (simp add: execute_query_def)

lemma execute_query_connected:
  assumes "connect L m w = (Inr c, m1, w1)" and "conn_id c \<in> live w1"
  shows "execute_query L m q ps w =
     (case run L (db w1) (conn_path c) q (if truthy ps then ps else None) of
        (Inl msg, d) \<Rightarrow>
          (Inl (QueryError msg), m1, w1\<lparr>db := d, executed := Suc (executed w1)\<rparr>)
      | (Inr (cols, vals), d) \<Rightarrow>
          (Inr (map (make_row (row_factory c) cols) vals), m1,
           w1\<lparr>db := d, executed := Suc (executed w1)\<rparr>))"
  using assms
  by (simp add: execute_query_def cursor_def cursor_execute_def fetchall_def
      split: prod.splits sum.splits)

lemma execute_query_closed_handle:
  "connect L m w = (Inr c, m1, w1) \<Longrightarrow> conn_id c \<notin> live w1 \<Longrightarrow>
   execute_query L m q ps w = (Inl ProgrammingError, m1, w1)"
  by (simp add: execute_query_def cursor_def)

subsection \<open>The invariant, method by method\<close>

lemma single_connection_init: "live w = {} \<Longrightarrow> single_connection (init p) w"
  by (simp add: single_connection_def init_def)

lemma single_connection_connect:
  assumes "single_connection m w" and "connect L m w = (r, m1, w1)"
  shows "single_connection m1 w1"
proof (cases "connection m")
  case None
  with assms show ?thesis
    by (cases "can_open L (db w) (db_path m)")
      (auto simp: connect_opens connect_refused single_connection_def)
next
  case (Some c)
  with assms show ?thesis by (simp add: connect_held)
qed

lemma single_connection_live:
  assumes "single_connection m w" and "connect L m w = (Inr c, m1, w1)"
  shows "connection m1 = Some c \<and> conn_id c \<in> live w1 \<and> row_factory c = RowFactory
         \<and> conn_path c = db_path m"
proof (cases "connection m")
  case None
  with assms show ?thesis
    by (cases "can_open L (db w) (db_path m)") (auto simp: connect_opens connect_refused)
next
  case (Some c0)
  with assms show ?thesis by (auto simp: connect_held single_connection_def)
qed

lemma single_connection_db:
  "single_connection m w \<Longrightarrow> single_connection m (w\<lparr>db := d, executed := n\<rparr>)"
  by (simp add: single_connection_def split: option.splits)

lemma single_connection_execute_query:
  assumes "single_connection m w" and "execute_query L m q ps w = (r, m2, w2)"
  shows "single_connection m2 w2"
proof -
  obtain rc m1 w1 where c: "connect L m w = (rc, m1, w1)"
    by (cases "connect L m w") auto
  have inv1: "single_connection m1 w1"
    using assms(1) c by (rule single_connection_connect)
  show ?thesis
  proof (cases rc)
    case (Inl e)
    with c assms(2) inv1 show ?thesis by (simp add: execute_query_no_connection)
  next
    case (Inr conn)
    with c have c': "connect L m w = (Inr conn, m1, w1)" by simp
    from single_connection_live [OF assms(1) c'] have "conn_id conn \<in> live w1" by simp
    with c' assms(2) inv1 show ?thesis
      by (auto simp: execute_query_connected single_connection_db split: prod.splits sum.splits)
  qed
qed

lemma single_connection_close:
  assumes "single_connection m w" and "close m w = (r, m1, w1)"
  shows "single_connection m1 w1"
  using assms by (cases "connection m") (auto simp: close_held close_none single_connection_def)

lemma single_connection_step:
  assumes "single_connection (fst s) (snd s)"
  shows "single_connection (fst (step L s c)) (snd (step L s c))"
proof (cases s)
  case (Pair m w)
  show ?thesis
  proof (cases c)
    case Connect
    with Pair assms show ?thesis
      using single_connection_connect [of m w L "fst (connect L m w)"] by simp
  next
    case (ExecuteQuery q ps)
    with Pair assms show ?thesis
      using single_connection_execute_query [of m w L q ps "fst (execute_query L m q ps w)"]
      by simp
  next
    case Close
    with Pair assms show ?thesis
      using single_connection_close [of m w "fst (close m w)"] by simp
  qed
qed

lemma single_connection_calls:
  "single_connection (fst s) (snd s) \<Longrightarrow>
   single_connection (fst (calls L s cs)) (snd (calls L s cs))"
  by (induction cs arbitrary: s) (simp_all add: single_connection_step)

lemma single_connection_card:
  "single_connection m w \<Longrightarrow> finite (live w) \<and> card (live w) \<le> 1"
  by (auto simp: single_connection_def split: option.splits)

lemma connect_executed: "executed (snd (snd (connect L m w))) = executed w"
  by (cases "connection m"; cases "can_open L (db w) (db_path m)")
    (simp_all add: connect_held connect_opens connect_refused)

lemma connect_fresh:
  "connection m = None \<Longrightarrow> connect L m w = (Inr c, m1, w1) \<Longrightarrow>
   connection m1 = Some c \<and> conn_id c = opened w \<and> opened w1 = Suc (opened w)"
  by (cases "can_open L (db w) (db_path m)") (auto simp: connect_opens connect_refused)

subsection \<open>The claims\<close>

text \<open>
  C7: for every query, \<open>execute_query\<close> with an empty parameter mapping does exactly
  what \<open>execute_query\<close> with no parameters does: same result, same manager, same
  library state.
\<close>

theorem execute_query_empty_params:
  "execute_query L m q (Some []) w = execute_query L m q None w"
  by (simp add: execute_query_def split: prod.splits sum.splits)

text \<open>
  C8: the path stored at construction never changes: after \<open>connect\<close>,
  \<open>execute_query\<close> and \<open>close\<close> the manager's \<open>db_path\<close> is what it was before.
\<close>

theorem db_path_immutable:
  "db_path (fst (snd (connect L m w))) = db_path m
   \<and> db_path (fst (snd (execute_query L m q ps w))) = db_path m
   \<and> db_path (fst (snd (close m w))) = db_path m"
  by (auto simp: connect_def execute_query_def close_def sqlite3_connect_def
      connection_close_def Let_def split: option.splits sum.splits prod.splits if_splits)

text \<open>
  C1: a manager holds at most one connection at any time. A manager just constructed,
  in a library with no open connection, satisfies \<open>single_connection\<close> (no
  connection held and none open, or the connection held is the only open one and the
  one opened last); from any state that satisfies it, every sequence of \<open>connect\<close>,
  \<open>execute_query\<close> and \<open>close\<close> calls, failed calls included, ends in a state that
  satisfies it, with at most one connection open.
\<close>

theorem at_most_one_connection:
  "(live v = {} \<longrightarrow> single_connection (init p) v)
   \<and> (single_connection m w \<longrightarrow>
        single_connection (fst (calls L (m, w) cs)) (snd (calls L (m, w) cs))
        \<and> finite (live (snd (calls L (m, w) cs)))
        \<and> card (live (snd (calls L (m, w) cs))) \<le> 1)"
  using single_connection_calls [of "(m, w)" L cs]
    single_connection_card [of "fst (calls L (m, w) cs)" "snd (calls L (m, w) cs)"]
  by (simp add: single_connection_init)

theorem at_most_one_connection_witness:
  "live demo_world = {}
   \<and> single_connection (init ''app.db'') demo_world
   \<and> single_connection
        (fst (calls demo (init ''app.db'', demo_world)
           [ExecuteQuery ''SELECT 1'' None, Connect, ExecuteQuery ''SELEKT * FROM t'' None,
            Close, Close, ExecuteQuery ''SELECT * FROM t'' (Some []), Connect]))
        (snd (calls demo (init ''app.db'', demo_world)
           [ExecuteQuery ''SELECT 1'' None, Connect, ExecuteQuery ''SELEKT * FROM t'' None,
            Close, Close, ExecuteQuery ''SELECT * FROM t'' (Some []), Connect]))
   \<and> card (live (snd (calls demo (init ''app.db'', demo_world)
           [ExecuteQuery ''SELECT 1'' None, Connect, ExecuteQuery ''SELEKT * FROM t'' None,
            Close, Close, ExecuteQuery ''SELECT * FROM t'' (Some []), Connect]))) \<le> 1"
proof -
  have e: "live demo_world = {}" by (simp add: demo_world_def)
  note t = at_most_one_connection [where v = demo_world and p = "''app.db''"
      and m = "init ''app.db''" and w = demo_world and L = demo]
  from e t show ?thesis by blast
qed

text \<open>
  C2: \<open>connect\<close> is idempotent: when a call of \<open>connect\<close> returns a connection, the
  next call (no \<open>close\<close> in between) returns the same connection and changes neither
  the manager nor the library, so it opens no connection.
\<close>

theorem connect_idempotent:
  assumes "connect L m w = (Inr c, m1, w1)"
  shows "connect L m1 w1 = (Inr c, m1, w1)"
proof (cases "connection m")
  case None
  with assms show ?thesis
    by (cases "can_open L (db w) (db_path m)")
      (auto simp: connect_opens connect_refused connect_held)
next
  case (Some c0)
  with assms show ?thesis by (auto simp: connect_held)
qed

theorem connect_idempotent_witness:
  "connect demo (init ''app.db'') demo_world =
     (Inr \<lparr>conn_id = 0, conn_path = ''app.db'', row_factory = RowFactory\<rparr>,
      \<lparr>db_path = ''app.db'',
       connection = Some \<lparr>conn_id = 0, conn_path = ''app.db'', row_factory = RowFactory\<rparr>\<rparr>,
      demo_world\<lparr>opened := 1, live := {0}\<rparr>)
   \<and> connect demo
        \<lparr>db_path = ''app.db'',
         connection = Some \<lparr>conn_id = 0, conn_path = ''app.db'', row_factory = RowFactory\<rparr>\<rparr>
        (demo_world\<lparr>opened := 1, live := {0}\<rparr>) =
     (Inr \<lparr>conn_id = 0, conn_path = ''app.db'', row_factory = RowFactory\<rparr>,
      \<lparr>db_path = ''app.db'',
       connection = Some \<lparr>conn_id = 0, conn_path = ''app.db'', row_factory = RowFactory\<rparr>\<rparr>,
      demo_world\<lparr>opened := 1, live := {0}\<rparr>)"
proof -
  have first: "connect demo (init ''app.db'') demo_world =
     (Inr \<lparr>conn_id = 0, conn_path = ''app.db'', row_factory = RowFactory\<rparr>,
      \<lparr>db_path = ''app.db'',
       connection = Some \<lparr>conn_id = 0, conn_path = ''app.db'', row_factory = RowFactory\<rparr>\<rparr>,
      demo_world\<lparr>opened := 1, live := {0}\<rparr>)"
    by (simp add: connect_def sqlite3_connect_def init_def demo_def demo_world_def Let_def)
  from first connect_idempotent [OF first] show ?thesis by simp
qed

text \<open>
  C9: \<open>connect\<close> is atomic on failure: when no connection is held and the file cannot
  be opened, \<open>connect\<close> raises the library's error and leaves the manager (its
  connection field still absent) and the library as they were.
\<close>

theorem connect_atomic_on_failure:
  assumes "connection m = None" and "\<not> can_open L (db w) (db_path m)"
  shows "connect L m w = (Inl ConnectionError, m, w) \<and> connection (fst (snd (connect L m w))) = None"
  using assms by (simp add: connect_refused)

theorem connect_atomic_on_failure_witness:
  "connection (init ''/missing/app.db'') = None
   \<and> \<not> can_open demo (db demo_world) (db_path (init ''/missing/app.db''))
   \<and> connect demo (init ''/missing/app.db'') demo_world =
       (Inl ConnectionError, init ''/missing/app.db'', demo_world)"
proof -
  have a: "connection (init ''/missing/app.db'') = None" by (simp add: init_def)
  have b: "\<not> can_open demo (db demo_world) (db_path (init ''/missing/app.db''))"
    by (simp add: demo_def init_def)
  from a b connect_atomic_on_failure [OF a b] show ?thesis by simp
qed

text \<open>
  C10: \<open>execute_query\<close> never closes or replaces a connection the manager holds:
  whether the call returns or raises, the manager holds the same connection after it,
  the call opens no connection, and the connection is open after the call if it was
  before. \<open>connect\<close> keeps it too, so only \<open>close\<close> removes it.
\<close>

theorem execute_query_keeps_connection:
  assumes "connection m = Some c"
  shows "connection (fst (snd (execute_query L m q ps w))) = Some c
         \<and> opened (snd (snd (execute_query L m q ps w))) = opened w
         \<and> live (snd (snd (execute_query L m q ps w))) = live w
         \<and> connection (fst (snd (connect L m w))) = Some c"
proof -
  have c: "connect L m w = (Inr c, m, w)"
    using assms by (rule connect_held)
  show ?thesis
  proof (cases "conn_id c \<in> live w")
    case True
    with c assms show ?thesis
      by (simp add: execute_query_connected split: prod.splits sum.splits)
  next
    case False
    with c assms show ?thesis
      by (simp add: execute_query_closed_handle)
  qed
qed

theorem execute_query_keeps_connection_witness:
  "connection (fst (snd (connect demo (init ''app.db'') demo_world))) =
     Some \<lparr>conn_id = 0, conn_path = ''app.db'', row_factory = RowFactory\<rparr>
   \<and> connection (fst (snd (execute_query demo
          (fst (snd (connect demo (init ''app.db'') demo_world))) ''SELEKT * FROM t'' None
          (snd (snd (connect demo (init ''app.db'') demo_world)))))) =
     Some \<lparr>conn_id = 0, conn_path = ''app.db'', row_factory = RowFactory\<rparr>
   \<and> connection (fst (snd (execute_query demo
          (fst (snd (connect demo (init ''app.db'') demo_world))) ''SELECT 1'' None
          (snd (snd (connect demo (init ''app.db'') demo_world)))))) =
     Some \<lparr>conn_id = 0, conn_path = ''app.db'', row_factory = RowFactory\<rparr>"
proof -
  have a: "connection (fst (snd (connect demo (init ''app.db'') demo_world))) =
     Some \<lparr>conn_id = 0, conn_path = ''app.db'', row_factory = RowFactory\<rparr>"
    by (simp add: connect_def sqlite3_connect_def init_def demo_def demo_world_def Let_def)
  from a execute_query_keeps_connection [OF a, of demo "''SELEKT * FROM t''" None]
    execute_query_keeps_connection [OF a, of demo "''SELECT 1''" None]
  show ?thesis by blast
qed

text \<open>
  C3: after \<open>close\<close> the connection field is absent, and the next \<open>execute_query\<close>
  reconnects by itself: when the file at the stored path can still be opened, the call
  opens a new connection, which the manager then holds, and a statement the engine
  accepts returns its rows.
\<close>

theorem execute_query_after_close:
  assumes "close m w = (r, m1, w1)"
      and "can_open L (db w1) (db_path m)"
      and "run L (db w1) (db_path m) q (if truthy ps then ps else None) = (Inr (cols, vals), d)"
  shows "connection m1 = None
         \<and> execute_query L m1 q ps w1 =
             (Inr (map (Row cols) vals),
              m1\<lparr>connection :=
                   Some \<lparr>conn_id = opened w1, conn_path = db_path m, row_factory = RowFactory\<rparr>\<rparr>,
              w1\<lparr>opened := Suc (opened w1), live := insert (opened w1) (live w1),
                 db := d, executed := Suc (executed w1)\<rparr>)"
proof -
  have m1: "connection m1 = None \<and> db_path m1 = db_path m"
    using assms(1) by (cases "connection m") (auto simp: close_held close_none)
  then have "connect L m1 w1 =
     (Inr \<lparr>conn_id = opened w1, conn_path = db_path m, row_factory = RowFactory\<rparr>,
      m1\<lparr>connection :=
          Some \<lparr>conn_id = opened w1, conn_path = db_path m, row_factory = RowFactory\<rparr>\<rparr>,
      w1\<lparr>opened := Suc (opened w1), live := insert (opened w1) (live w1)\<rparr>)"
    using assms(2) connect_opens [of m1 L w1] by simp
  from execute_query_connected [OF this, of q ps] assms(3) m1 show ?thesis
    by (simp add: make_row_def)
qed

theorem execute_query_after_close_witness:
  "close \<lparr>db_path = ''app.db'',
          connection = Some \<lparr>conn_id = 0, conn_path = ''app.db'', row_factory = RowFactory\<rparr>\<rparr>
     (demo_world\<lparr>opened := 1, live := {0}\<rparr>) =
     (Inr (), init ''app.db'', demo_world\<lparr>opened := 1\<rparr>)
   \<and> fst (execute_query demo (init ''app.db'') ''SELECT 1'' None (demo_world\<lparr>opened := 1\<rparr>)) =
       Inr [Row [''1''] [Integer 1]]
   \<and> connection (fst (snd (execute_query demo (init ''app.db'') ''SELECT 1'' None
         (demo_world\<lparr>opened := 1\<rparr>)))) =
       Some \<lparr>conn_id = 1, conn_path = ''app.db'', row_factory = RowFactory\<rparr>"
proof -
  have a: "close \<lparr>db_path = ''app.db'',
          connection = Some \<lparr>conn_id = 0, conn_path = ''app.db'', row_factory = RowFactory\<rparr>\<rparr>
     (demo_world\<lparr>opened := 1, live := {0}\<rparr>) =
     (Inr (), init ''app.db'', demo_world\<lparr>opened := 1\<rparr>)"
    by (simp add: close_def connection_close_def init_def demo_world_def)
  have b: "can_open demo (db (demo_world\<lparr>opened := 1\<rparr>))
     (db_path \<lparr>db_path = ''app.db'',
          connection = Some \<lparr>conn_id = 0, conn_path = ''app.db'', row_factory = RowFactory\<rparr>\<rparr>)"
    by (simp add: demo_def)
  have c: "run demo (db (demo_world\<lparr>opened := 1\<rparr>))
     (db_path \<lparr>db_path = ''app.db'',
          connection = Some \<lparr>conn_id = 0, conn_path = ''app.db'', row_factory = RowFactory\<rparr>\<rparr>)
     ''SELECT 1'' (if truthy None then None else None) =
     (Inr ([''1''], [[Integer 1]]), db demo_world)"
    by (simp add: demo_def demo_run_def)
  from a execute_query_after_close [OF a b c] show ?thesis
    by (simp add: init_def)
qed

text \<open>
  C5: \<open>close\<close> never raises; with no connection held it does nothing; and a second
  \<open>close\<close> right after a first does nothing more: it returns normally and leaves
  the state the first one produced.
\<close>

theorem close_never_fails:
  "fst (close m w) = Inr ()
   \<and> (connection m = None \<longrightarrow> close m w = (Inr (), m, w))
   \<and> close (fst (snd (close m w))) (snd (snd (close m w))) = (Inr (), snd (close m w))"
  by (cases "connection m") (auto simp: close_held close_none)

theorem close_never_fails_witness:
  "connection (init ''app.db'') = None
   \<and> close (init ''app.db'') demo_world = (Inr (), init ''app.db'', demo_world)"
proof -
  have a: "connection (init ''app.db'') = None" by (simp add: init_def)
  from a close_never_fails [of "init ''app.db''" demo_world] show ?thesis by blast
qed

text \<open>
  C6: \<open>execute_query\<close> first makes sure of a connection through \<open>connect\<close>, then
  runs the statement once with the parameters given (bound only when the mapping is
  non-empty) and returns every row of the result, in the engine's order, each as a
  \<^verbatim>\<open>sqlite3.Row\<close> carrying the column names; the manager and the library are left as
  \<open>connect\<close> left them, but for the effect of the statement.
\<close>

theorem execute_query_returns_rows:
  assumes "single_connection m w"
      and "connect L m w = (Inr c, m1, w1)"
      and "run L (db w1) (db_path m) q (if truthy ps then ps else None) = (Inr (cols, vals), d)"
  shows "execute_query L m q ps w =
           (Inr (map (Row cols) vals), m1, w1\<lparr>db := d, executed := Suc (executed w1)\<rparr>)
         \<and> connection m1 = Some c \<and> conn_id c \<in> live w1"
proof -
  note l = single_connection_live [OF assms(1,2)]
  then have "conn_id c \<in> live w1" by simp
  from execute_query_connected [OF assms(2) this, of q ps] assms(3) l show ?thesis
    by (simp add: make_row_def)
qed

theorem execute_query_returns_rows_witness:
  "single_connection (init ''app.db'') demo_world
   \<and> execute_query demo (init ''app.db'') ''SELECT * FROM t WHERE id = :id''
        (Some [(''id'', Integer 2)]) demo_world =
       (Inr [Row [''id'', ''name''] [Integer 2, Text ''b'']],
        \<lparr>db_path = ''app.db'',
         connection = Some \<lparr>conn_id = 0, conn_path = ''app.db'', row_factory = RowFactory\<rparr>\<rparr>,
        demo_world\<lparr>opened := 1, live := {0}, executed := 1\<rparr>)"
proof -
  have a: "single_connection (init ''app.db'') demo_world"
    by (simp add: single_connection_def init_def demo_world_def)
  have b: "connect demo (init ''app.db'') demo_world =
     (Inr \<lparr>conn_id = 0, conn_path = ''app.db'', row_factory = RowFactory\<rparr>,
      \<lparr>db_path = ''app.db'',
       connection = Some \<lparr>conn_id = 0, conn_path = ''app.db'', row_factory = RowFactory\<rparr>\<rparr>,
      demo_world\<lparr>opened := 1, live := {0}\<rparr>)"
    by (simp add: connect_def sqlite3_connect_def init_def demo_def demo_world_def Let_def)
  have c: "run demo (db (demo_world\<lparr>opened := 1, live := {0}\<rparr>)) (db_path (init ''app.db''))
       ''SELECT * FROM t WHERE id = :id''
       (if truthy (Some [(''id'', Integer 2)]) then Some [(''id'', Integer 2)] else None) =
     (Inr ([''id'', ''name''], [[Integer 2, Text ''b'']]), db demo_world)"
    by (simp add: demo_def demo_run_def demo_world_def)
  from a execute_query_returns_rows [OF a b c] show ?thesis
    by (simp add: demo_world_def)
qed

text \<open>
  C4, as stated, fails: on a manager that holds no connection, \<open>execute_query\<close> with
  malformed SQL raises \<open>QueryError\<close> and leaves the manager holding the connection
  the call opened, so the connection field is not what it was before the call; and on
  a manager whose file cannot be opened (its directory does not exist) the call raises
  \<open>ConnectionError\<close>, not \<open>QueryError\<close>.
\<close>

theorem failed_query_opens_connection:
  "fst (execute_query demo (init ''app.db'') ''SELEKT * FROM t'' None demo_world) =
     Inl (QueryError ''syntax error'')
   \<and> connection (fst (snd (execute_query demo (init ''app.db'') ''SELEKT * FROM t'' None
         demo_world))) \<noteq> connection (init ''app.db'')
   \<and> fst (execute_query demo (init ''/missing/app.db'') ''SELEKT * FROM t'' None demo_world) =
       Inl ConnectionError"
  by (simp add: execute_query_def connect_def sqlite3_connect_def cursor_def
      cursor_execute_def init_def demo_def demo_run_def demo_world_def Let_def)

text \<open>
  C4, amended. When \<open>connect\<close> gives an open connection (the one the manager holds,
  or, with none held, the one it opens) and the engine rejects the statement,
  \<open>execute_query\<close> raises the engine's \<open>QueryError\<close> to the caller after executing
  the statement exactly once; a manager that held a connection is unchanged by the
  failed call, and a manager that held none holds, after the failed call, the connection
  the call opened. When no connection is held and the file cannot be opened,
  \<open>execute_query\<close> raises \<open>ConnectionError\<close> to the caller instead, whatever the
  statement, and changes neither the manager nor the library.
\<close>

theorem execute_query_error_propagates:
  "(connect L m w = (Inr c, m1, w1) \<and> conn_id c \<in> live w1
    \<and> fst (run L (db w1) (conn_path c) q (if truthy ps then ps else None)) = Inl msg \<longrightarrow>
      fst (execute_query L m q ps w) = Inl (QueryError msg)
      \<and> fst (snd (execute_query L m q ps w)) = m1
      \<and> executed (snd (snd (execute_query L m q ps w))) = Suc (executed w)
      \<and> (case connection m of
            Some c0 \<Rightarrow> m1 = m
          | None \<Rightarrow> connection m1 = Some c \<and> conn_id c = opened w))
   \<and> (connection m = None \<and> \<not> can_open L (db w) (db_path m) \<longrightarrow>
      execute_query L m q ps w = (Inl ConnectionError, m, w))"
proof (intro conjI impI)
  assume a: "connect L m w = (Inr c, m1, w1) \<and> conn_id c \<in> live w1
    \<and> fst (run L (db w1) (conn_path c) q (if truthy ps then ps else None)) = Inl msg"
  then have con: "connect L m w = (Inr c, m1, w1)" and live: "conn_id c \<in> live w1"
    by simp_all
  have ex: "executed w1 = executed w"
    using connect_executed [of L m w] con by simp
  have held: "case connection m of
               Some c0 \<Rightarrow> m1 = m
             | None \<Rightarrow> connection m1 = Some c \<and> conn_id c = opened w"
    using con by (auto simp: connect_held connect_fresh split: option.splits)
  obtain d where "run L (db w1) (conn_path c) q (if truthy ps then ps else None) = (Inl msg, d)"
    using a by (cases "run L (db w1) (conn_path c) q (if truthy ps then ps else None)") auto
  with execute_query_connected [OF con live, of q ps]
  have e: "execute_query L m q ps w =
      (Inl (QueryError msg), m1, w1\<lparr>db := d, executed := Suc (executed w1)\<rparr>)"
    by simp
  from e show "fst (execute_query L m q ps w) = Inl (QueryError msg)" by simp
  from e show "fst (snd (execute_query L m q ps w)) = m1" by simp
  from e ex show "executed (snd (snd (execute_query L m q ps w))) = Suc (executed w)" by simp
  from held show "case connection m of
               Some c0 \<Rightarrow> m1 = m
             | None \<Rightarrow> connection m1 = Some c \<and> conn_id c = opened w" .
next
  assume "connection m = None \<and> \<not> can_open L (db w) (db_path m)"
  then have "connect L m w = (Inl ConnectionError, m, w)"
    by (simp add: connect_refused)
  then show "execute_query L m q ps w = (Inl ConnectionError, m, w)"
    by (rule execute_query_no_connection)
qed

theorem execute_query_error_propagates_witness:
  "execute_query demo
       \<lparr>db_path = ''app.db'',
        connection = Some \<lparr>conn_id = 0, conn_path = ''app.db'', row_factory = RowFactory\<rparr>\<rparr>
       ''SELEKT * FROM t'' None (demo_world\<lparr>opened := 1, live := {0}\<rparr>) =
     (Inl (QueryError ''syntax error''),
      \<lparr>db_path = ''app.db'',
       connection = Some \<lparr>conn_id = 0, conn_path = ''app.db'', row_factory = RowFactory\<rparr>\<rparr>,
      demo_world\<lparr>opened := 1, live := {0}, executed := 1\<rparr>)
   \<and> connection (init ''/missing/app.db'') = None
   \<and> \<not> can_open demo (db demo_world) (db_path (init ''/missing/app.db''))
   \<and> execute_query demo (init ''/missing/app.db'') ''SELEKT * FROM t'' None demo_world =
       (Inl ConnectionError, init ''/missing/app.db'', demo_world)"
proof -
  let ?c = "\<lparr>conn_id = 0, conn_path = ''app.db'', row_factory = RowFactory\<rparr>"
  let ?m = "\<lparr>db_path = ''app.db'', connection = Some ?c\<rparr>"
  let ?w = "demo_world\<lparr>opened := 1, live := {0}\<rparr>"
  have a: "connect demo ?m ?w = (Inr ?c, ?m, ?w) \<and> conn_id ?c \<in> live ?w
     \<and> fst (run demo (db ?w) (conn_path ?c) ''SELEKT * FROM t''
         (if truthy None then None else None)) = Inl ''syntax error''"
    by (simp add: connect_def demo_def demo_run_def)
  have d: "snd (snd (execute_query demo ?m ''SELEKT * FROM t'' None ?w)) =
     demo_world\<lparr>opened := 1, live := {0}, executed := 1\<rparr>"
    by (simp add: execute_query_def connect_def cursor_def cursor_execute_def demo_def
        demo_run_def demo_world_def)
  have n: "connection (init ''/missing/app.db'') = None
     \<and> \<not> can_open demo (db demo_world) (db_path (init ''/missing/app.db''))"
    by (simp add: init_def demo_def)
  note t1 = execute_query_error_propagates [where L = demo and m = ?m and w = ?w and c = ?c
      and ?m1.0 = ?m and ?w1.0 = ?w and q = "''SELEKT * FROM t''" and ps = None
      and msg = "''syntax error''"]
  note t2 = execute_query_error_propagates [where L = demo
      and m = "init ''/missing/app.db''" and w = demo_world
      and q = "''SELEKT * FROM t''" and ps = None]
  from a t1 have first: "fst (execute_query demo ?m ''SELEKT * FROM t'' None ?w) =
        Inl (QueryError ''syntax error'')
      \<and> fst (snd (execute_query demo ?m ''SELEKT * FROM t'' None ?w)) = ?m"
    by blast
  from n t2 have second:
    "execute_query demo (init ''/missing/app.db'') ''SELEKT * FROM t'' None demo_world =
       (Inl ConnectionError, init ''/missing/app.db'', demo_world)"
    by blast
  from first d second n show ?thesis
    by (simp add: prod_eq_iff)
qed

end
